theory Spec2Isabelle
  imports Main
begin

section \<open>JavaScript values and chat messages\<close>

text \<open>
  The handlers of \<^verbatim>\<open>chats-post.ts\<close> and \<^verbatim>\<open>chats-delete.ts\<close> read message
  identifiers with the operator \<^verbatim>\<open>||\<close>, which selects on truthiness, and copy the
  property bags \<^verbatim>\<open>additional_kwargs\<close> and \<^verbatim>\<open>response_metadata\<close> with object
  spread. A property value is a JavaScript value: \<^verbatim>\<open>undefined\<close>, \<^verbatim>\<open>null\<close>, a boolean,
  a number (the handlers only ever produce array indices, so an integer), a string, or
  a reference to some object or array, compared by identity.
  Strings are sequences of code units below 256.
\<close>

datatype jsval =
    JUndefined
  | JNull
  | JBool bool
  | JNum int
  | JStr string
  | JObj nat

fun truthy :: "jsval \<Rightarrow> bool" where
  "truthy JUndefined = False"
| "truthy JNull = False"
| "truthy (JBool b) = b"
| "truthy (JNum n) = (n \<noteq> 0)"
| "truthy (JStr s) = (s \<noteq> [])"
| "truthy (JObj r) = True"

text \<open>\<^verbatim>\<open>a || b\<close>: the left operand when it is truthy, the right one otherwise.\<close>

definition js_or :: "jsval \<Rightarrow> jsval \<Rightarrow> jsval" where
  "js_or a b = (if truthy a then a else b)"

text \<open>
  A plain object is a finite map from property names to values; a property that is
  set to \<^verbatim>\<open>undefined\<close> is a key bound to \<open>JUndefined\<close>. Reading a property that the
  object does not have gives \<^verbatim>\<open>undefined\<close>.
\<close>

type_synonym jsobject = "string \<rightharpoonup> jsval"

definition get_prop :: "jsobject \<Rightarrow> string \<Rightarrow> jsval" where
  "get_prop obj k = (case obj k of None \<Rightarrow> JUndefined | Some v \<Rightarrow> v)"

text \<open>\<^verbatim>\<open>obj?.k\<close> where \<open>obj\<close> itself may be \<^verbatim>\<open>undefined\<close> or \<^verbatim>\<open>null\<close> (\<open>None\<close>).\<close>

definition opt_prop :: "jsobject option \<Rightarrow> string \<Rightarrow> jsval" where
  "opt_prop obj k = (case obj of None \<Rightarrow> JUndefined | Some kw \<Rightarrow> get_prop kw k)"

text \<open>
  A chat message. \<open>msg_class\<close> is the class it is an instance of
  (\<^verbatim>\<open>HumanMessage\<close>, \<^verbatim>\<open>AIMessage\<close>, ...), which no handler asks for. The other fields
  are what the handlers read: the property \<^verbatim>\<open>type\<close>, its textual \<^verbatim>\<open>content\<close>, the
  two property bags, and the own properties \<^verbatim>\<open>messageId\<close> and \<^verbatim>\<open>id\<close>.

  The message classes of the LangChain release the handlers are written against
  tell their type through the method \<^verbatim>\<open>getType()\<close> and have no property
  \<^verbatim>\<open>type\<close>: on a message that the handlers construct or that the store returns,
  \<^verbatim>\<open>msg.type\<close> is \<^verbatim>\<open>undefined\<close> (\<open>None\<close>). Only a plain object can carry a
  \<^verbatim>\<open>type\<close> of its own.
\<close>

record message =
  msg_class :: string
  msg_type :: "string option"
  content :: string
  additional_kwargs :: "jsobject option"
  response_metadata :: "jsobject option"
  messageId :: jsval
  msg_id :: jsval

text \<open>
  \<^verbatim>\<open>getMessageId\<close> (the same function in both handler files):
  \<^verbatim>\<open>msg.additional_kwargs?.messageId || msg.response_metadata?.messageId ||
  msg.messageId || msg.id || null\<close>.
\<close>

definition getMessageId :: "message \<Rightarrow> jsval" where
  "getMessageId msg =
     js_or (opt_prop (additional_kwargs msg) ''messageId'')
       (js_or (opt_prop (response_metadata msg) ''messageId'')
          (js_or (messageId msg)
             (js_or (msg_id msg) JNull)))"

text \<open>The first truthy value of a list of candidates, \<^verbatim>\<open>null\<close> when there is none.\<close>

fun first_truthy :: "jsval list \<Rightarrow> jsval" where
  "first_truthy [] = JNull"
| "first_truthy (v # vs) = (if truthy v then v else first_truthy vs)"

text \<open>\<^verbatim>\<open>{ ...(obj || {}), messageId }\<close> and the three assignments of \<^verbatim>\<open>setMessageId\<close>.\<close>

definition or_empty :: "jsobject option \<Rightarrow> jsobject" where
  "or_empty obj = (case obj of None \<Rightarrow> Map.empty | Some kw \<Rightarrow> kw)"

definition setMessageId :: "message \<Rightarrow> string \<Rightarrow> message" where
  "setMessageId message mid =
     message
       \<lparr> additional_kwargs := Some ((or_empty (additional_kwargs message))(''messageId'' \<mapsto> JStr mid)),
         response_metadata := Some ((or_empty (response_metadata message))(''messageId'' \<mapsto> JStr mid)),
         messageId := JStr mid \<rparr>"

text \<open>
  \<^verbatim>\<open>new HumanMessage(content)\<close> and \<^verbatim>\<open>new AIMessage(content)\<close>: an instance of the
  class with the given content, no property \<^verbatim>\<open>type\<close>, empty property bags and no
  identifier.
\<close>

definition new_message :: "string \<Rightarrow> string \<Rightarrow> message" where
  "new_message cls text =
     \<lparr> msg_class = cls, msg_type = None, content = text,
       additional_kwargs = Some Map.empty, response_metadata = Some Map.empty,
       messageId = JUndefined, msg_id = JUndefined \<rparr>"

definition HumanMessage :: "string \<Rightarrow> message" where
  "HumanMessage text = new_message ''HumanMessage'' text"

definition AIMessage :: "string \<Rightarrow> message" where
  "AIMessage text = new_message ''AIMessage'' text"

section \<open>The chat-history store and the outside world\<close>

text \<open>
  What a handler does to its surroundings is recorded as a list of effects, in the
  order of the calls: the writes to the chat-history store and the calls to the
  retriever and to the language model. Reads of the store leave no effect.
\<close>

datatype effect =
    Clear
  | AddMessage message
  | SetContext jsobject
  | Retrieve string
  | RagStream string "message list"
  | TitleModel string

text \<open>
  Modelled from the spec: the chat-history store is an external collaborator behind a
  narrow interface (a LangChain \<^verbatim>\<open>ChatMessageHistory\<close>, Cosmos DB or file system),
  not code of this repository. For one session it holds the ordered list of messages
  and a context object: \<^verbatim>\<open>getMessages\<close> reads the list, \<^verbatim>\<open>addMessage\<close> appends to it,
  \<^verbatim>\<open>clear\<close> empties it, \<^verbatim>\<open>getContext\<close> and \<^verbatim>\<open>setContext\<close> read and replace the
  context. The store, the retriever and the language model are taken to answer;
  what the handlers do when one of them throws (the \<^verbatim>\<open>catch\<close> blocks that report
  \<^verbatim>\<open>serviceUnavailable\<close>) is outside the model.

  \<^verbatim>\<open>uuidv4()\<close> draws the next identifier from a source that the world carries.
\<close>

record world =
  history :: "message list"
  session_context :: jsobject
  uuid_source :: "nat \<Rightarrow> string"
  uuid_next :: nat
  trace :: "effect list"

definition getMessages :: "world \<Rightarrow> message list" where
  "getMessages w = history w"

definition addMessage :: "message \<Rightarrow> world \<Rightarrow> world" where
  "addMessage msg w = w \<lparr> history := history w @ [msg], trace := trace w @ [AddMessage msg] \<rparr>"

definition clear :: "world \<Rightarrow> world" where
  "clear w = w \<lparr> history := [], trace := trace w @ [Clear] \<rparr>"

definition getContext :: "world \<Rightarrow> jsobject" where
  "getContext w = session_context w"

definition setContext :: "jsobject \<Rightarrow> world \<Rightarrow> world" where
  "setContext c w = w \<lparr> session_context := c, trace := trace w @ [SetContext c] \<rparr>"

definition uuidv4 :: "world \<Rightarrow> string \<times> world" where
  "uuidv4 w = (uuid_source w (uuid_next w), w \<lparr> uuid_next := Suc (uuid_next w) \<rparr>)"

section \<open>Deleting one message: \<^verbatim>\<open>deleteMessage\<close>\<close>

text \<open>
  The handler resolves \<^verbatim>\<open>messageId\<close>, \<^verbatim>\<open>sessionId\<close> and \<^verbatim>\<open>userId\<close> from the URL
  parameters, the body and the headers (\<^verbatim>\<open>paramMessageId || requestBody.messageId\<close>
  and so on); the request below carries the three resolved values, and the instant
  that \<^verbatim>\<open>new Date().toISOString()\<close> returns.
\<close>

record delete_request =
  req_messageId :: jsval
  req_sessionId :: jsval
  req_userId :: jsval
  req_now :: string

text \<open>
  The reasons of the handler's \<^verbatim>\<open>badRequest\<close> responses, in the order of the source:
  \<^verbatim>\<open>'messageId is required in URL path'\<close>, \<^verbatim>\<open>'sessionId is required in URL path'\<close>,
  \<^verbatim>\<open>'Invalid or missing userId in the request. ...'\<close>,
  \<^verbatim>\<open>'No messages found in the specified session'\<close> and
  \<^verbatim>\<open>`Message with ID ${messageId} not found in session`\<close>.
\<close>

datatype delete_error =
    MessageIdRequired
  | SessionIdRequired
  | UserIdRequired
  | NoMessagesFound
  | MessageNotFound jsval

record delete_body =
  success :: bool
  deletedMessageId :: jsval
  remainingMessages :: nat
  preservedMetadata :: "string set"

datatype delete_response =
    BadRequest delete_error
  | DeleteData delete_body

text \<open>
  The session metadata taken from the first message: the five named fields, then
  every entry of its \<^verbatim>\<open>additional_kwargs\<close> but \<^verbatim>\<open>messageId\<close>, \<^verbatim>\<open>content\<close> and
  \<^verbatim>\<open>role\<close>, spread over them.
\<close>

definition extractSessionMetadata :: "message list \<Rightarrow> jsval \<Rightarrow> jsval \<Rightarrow> string \<Rightarrow> jsobject" where
  "extractSessionMetadata messages sessionId userId now =
     (case messages of
        [] \<Rightarrow> Map.empty
      | firstMessage # _ \<Rightarrow>
          (case additional_kwargs firstMessage of
             None \<Rightarrow> Map.empty
           | Some kw \<Rightarrow>
               [''title'' \<mapsto> get_prop kw ''title'',
                ''sessionId'' \<mapsto> js_or (get_prop kw ''sessionId'') sessionId,
                ''userId'' \<mapsto> js_or (get_prop kw ''userId'') userId,
                ''createdAt'' \<mapsto> get_prop kw ''createdAt'',
                ''updatedAt'' \<mapsto> JStr now]
               ++ (kw |` (- {''messageId'', ''content'', ''role''}))))"

text \<open>
  The body of the re-insertion loop for the message at index \<open>i\<close> of \<open>n\<close>: an absent
  \<^verbatim>\<open>additional_kwargs\<close> becomes \<^verbatim>\<open>{}\<close>, then the metadata, the message's own
  entries and the four positional entries are spread in that order.
\<close>

definition withMetadata :: "jsobject \<Rightarrow> nat \<Rightarrow> nat \<Rightarrow> message \<Rightarrow> message" where
  "withMetadata sessionMetadata n i msg =
     (let msg1 = msg \<lparr> additional_kwargs := Some (or_empty (additional_kwargs msg)) \<rparr>;
          kw = or_empty (additional_kwargs msg1)
      in msg1 \<lparr> additional_kwargs := Some
           ((sessionMetadata ++ kw)
              (''messageId'' \<mapsto> js_or (get_prop kw ''messageId'') (getMessageId msg1),
               ''messageIndex'' \<mapsto> JNum (int i),
               ''isFirst'' \<mapsto> JBool (i = 0),
               ''isLast'' \<mapsto> JBool (int i = int n - 1))) \<rparr>)"

fun readd :: "jsobject \<Rightarrow> nat \<Rightarrow> nat \<Rightarrow> message list \<Rightarrow> world \<Rightarrow> world" where
  "readd sessionMetadata n i [] w = w"
| "readd sessionMetadata n i (msg # rest) w =
     readd sessionMetadata n (Suc i) rest (addMessage (withMetadata sessionMetadata n i msg) w)"

definition deleteMessage :: "delete_request \<Rightarrow> world \<Rightarrow> delete_response \<times> world" where
  "deleteMessage request w =
     (let mid = req_messageId request;
          sessionId = req_sessionId request;
          userId = req_userId request
      in if \<not> truthy mid then (BadRequest MessageIdRequired, w)
         else if \<not> truthy sessionId then (BadRequest SessionIdRequired, w)
         else if \<not> truthy userId then (BadRequest UserIdRequired, w)
         else
           let messages = getMessages w
           in if messages = [] then (BadRequest NoMessagesFound, w)
              else
                (case find (\<lambda>msg. getMessageId msg = mid) messages of
                   None \<Rightarrow> (BadRequest (MessageNotFound mid), w)
                 | Some messageToDelete \<Rightarrow>
                     let filteredMessages = filter (\<lambda>msg. getMessageId msg \<noteq> mid) messages;
                         sessionMetadata =
                           extractSessionMetadata messages sessionId userId (req_now request);
                         w' = readd sessionMetadata (length filteredMessages) 0 filteredMessages
                                (clear w)
                     in (DeleteData
                           \<lparr> success = True, deletedMessageId = mid,
                             remainingMessages = length filteredMessages,
                             preservedMetadata = dom sessionMetadata \<rparr>, w')))"

section \<open>Streaming an answer: \<^verbatim>\<open>createJsonStream\<close>\<close>

text \<open>
  \<^verbatim>\<open>String.prototype.trim\<close> removes white space and line terminators from both
  ends. Among the code units below 256 these are tab, line feed, vertical tab, form
  feed, carriage return, space and no-break space.
\<close>

definition isWhiteSpace :: "char \<Rightarrow> bool" where
  "isWhiteSpace c \<longleftrightarrow>
     c \<in> {CHR 0x09, CHR 0x0A, CHR 0x0B, CHR 0x0C, CHR 0x0D, CHR 0x20, CHR 0xA0}"

definition trim :: "string \<Rightarrow> string" where
  "trim s = rev (dropWhile isWhiteSpace (rev (dropWhile isWhiteSpace s)))"

text \<open>
  \<^verbatim>\<open>JSON.stringify\<close> on the objects the stream yields: objects whose values are
  strings or such objects. A string is quoted, with the two-character escapes for
  the double quote, the backslash, backspace, form feed, line feed, carriage return
  and tab, and \<^verbatim>\<open>\u00XX\<close> (lower-case hexadecimal) for the other code units below
  \<^verbatim>\<open>0x20\<close>; the members of an object are written in order, separated by commas.
\<close>

datatype json =
    JsonString string
  | JsonObject "(string \<times> json) list"

definition hex_digit :: "nat \<Rightarrow> char" where
  "hex_digit n = ''0123456789abcdef'' ! n"

definition escape_char :: "char \<Rightarrow> string" where
  "escape_char c =
     (if c = CHR 0x22 then [CHR 0x5C, CHR 0x22]
      else if c = CHR 0x5C then [CHR 0x5C, CHR 0x5C]
      else if c = CHR 0x08 then [CHR 0x5C, CHR ''b'']
      else if c = CHR 0x0C then [CHR 0x5C, CHR ''f'']
      else if c = CHR 0x0A then [CHR 0x5C, CHR ''n'']
      else if c = CHR 0x0D then [CHR 0x5C, CHR ''r'']
      else if c = CHR 0x09 then [CHR 0x5C, CHR ''t'']
      else if (of_char c :: nat) < 0x20 then
        [CHR 0x5C, CHR ''u'', CHR ''0'', CHR ''0'',
         hex_digit ((of_char c :: nat) div 16), hex_digit ((of_char c :: nat) mod 16)]
      else [c])"

definition quoteJSONString :: "string \<Rightarrow> string" where
  "quoteJSONString s = [CHR 0x22] @ concat (map escape_char s) @ [CHR 0x22]"

fun join :: "string \<Rightarrow> string list \<Rightarrow> string" where
  "join sep [] = []"
| "join sep [x] = x"
| "join sep (x # y # ys) = x @ sep @ join sep (y # ys)"

fun stringify :: "json \<Rightarrow> string" where
  "stringify (JsonString s) = quoteJSONString s"
| "stringify (JsonObject members) =
     ''{'' @ join '','' (map (\<lambda>kv. quoteJSONString (fst kv) @ '':'' @ stringify (snd kv)) members)
       @ ''}''"

text \<open>The \<^verbatim>\<open>AIChatCompletionDelta\<close> built for one chunk.\<close>

definition responseChunk :: "string \<Rightarrow> string \<Rightarrow> string \<Rightarrow> json" where
  "responseChunk chunk sessionId mid =
     JsonObject
       [(''delta'', JsonObject [(''content'', JsonString chunk), (''role'', JsonString ''assistant'')]),
        (''context'', JsonObject [(''sessionId'', JsonString sessionId), (''messageId'', JsonString mid)])]"

text \<open>
  The \<^verbatim>\<open>for await\<close> loop over the model's chunks: an empty chunk is skipped, any
  other is appended to \<^verbatim>\<open>fullResponse\<close> and yielded as one line. The loop returns
  the full response and the lines yielded.
\<close>

fun stream_loop :: "string list \<Rightarrow> string \<Rightarrow> string \<Rightarrow> string \<Rightarrow> string list \<Rightarrow> string \<times> string list" where
  "stream_loop [] sessionId mid fullResponse yielded = (fullResponse, yielded)"
| "stream_loop (chunk # rest) sessionId mid fullResponse yielded =
     (if chunk = [] then stream_loop rest sessionId mid fullResponse yielded
      else stream_loop rest sessionId mid (fullResponse @ chunk)
             (yielded @ [stringify (responseChunk chunk sessionId mid) @ [CHR 0x0A]]))"

text \<open>
  The generator run to completion: the lines it yields and the world after the
  save at its end.
\<close>

definition createJsonStream :: "string list \<Rightarrow> string \<Rightarrow> string \<Rightarrow> world \<Rightarrow> string list \<times> world" where
  "createJsonStream chunks sessionId mid w =
     (let (fullResponse, yielded) = stream_loop chunks sessionId mid [] []
      in if trim fullResponse \<noteq> [] then
           let existingMessages = getMessages w;
               responseAlreadyExists =
                 (\<exists>msg\<in>set existingMessages.
                    msg_type msg = Some ''ai'' \<and> content msg = trim fullResponse)
           in if \<not> responseAlreadyExists
              then (yielded, addMessage (setMessageId (AIMessage fullResponse) mid) w)
              else (yielded, w)
         else (yielded, w))"

section \<open>Posting a question: \<^verbatim>\<open>postChats\<close>\<close>

text \<open>
  The request body: the list of messages (\<open>None\<close> when the body has none) and the
  session identifier of its context. The retriever and the two language-model
  chains are external; the answers they give are parameters: the chunks the RAG
  chain streams for a question over the current messages, and the title the title
  chain proposes for a question.
\<close>

record chat_message =
  cm_content :: string
  cm_role :: string

record post_request =
  post_messages :: "chat_message list option"
  post_sessionId :: "string option"

record models =
  ragChainStream :: "string \<Rightarrow> message list \<Rightarrow> string list"
  titleChain :: "string \<Rightarrow> string"

record json_stream =
  stream_chunks :: "string list"
  stream_sessionId :: string
  stream_messageId :: string

text \<open>
  The responses: \<^verbatim>\<open>badRequest('Invalid or missing messages in the request body')\<close>,
  \<^verbatim>\<open>serviceUnavailable(...)\<close> from the \<^verbatim>\<open>catch\<close> block, and the NDJSON stream, which
  runs \<open>createJsonStream\<close> when the client reads it.
\<close>

datatype post_response =
    PostBadRequest
  | PostServiceUnavailable
  | PostData json_stream

definition consume :: "json_stream \<Rightarrow> world \<Rightarrow> string list \<times> world" where
  "consume s w = createJsonStream (stream_chunks s) (stream_sessionId s) (stream_messageId s) w"

text \<open>\<^verbatim>\<open>array.pop()\<close> on a fresh array: its last element, \<^verbatim>\<open>undefined\<close> when empty.\<close>

definition pop :: "'a list \<Rightarrow> 'a option" where
  "pop xs = (if xs = [] then None else Some (last xs))"

text \<open>
  The second half of the handler, from \<^verbatim>\<open>currentMessages\<close> on: the retriever and the
  RAG chain are called, the identifier of the answer is drawn, and a title is
  generated and stored when the session context has none.
\<close>

definition answer :: "models \<Rightarrow> string \<Rightarrow> string \<Rightarrow> world \<Rightarrow> post_response \<times> world" where
  "answer m sessionId userQuestion w =
     (let currentMessages = getMessages w;
          w1 = w \<lparr> trace := trace w @ [Retrieve userQuestion, RagStream userQuestion currentMessages] \<rparr>;
          responseStream = ragChainStream m userQuestion currentMessages;
          (aiMessageId, w2) = uuidv4 w1;
          title = get_prop (getContext w2) ''title'';
          w3 = (if \<not> truthy title
                then setContext [''title'' \<mapsto> JStr (titleChain m userQuestion)]
                       (w2 \<lparr> trace := trace w2 @ [TitleModel userQuestion] \<rparr>)
                else w2)
      in (PostData \<lparr> stream_chunks = responseStream, stream_sessionId = sessionId,
                     stream_messageId = aiMessageId \<rparr>, w3))"

definition postChats :: "models \<Rightarrow> post_request \<Rightarrow> world \<Rightarrow> post_response \<times> world" where
  "postChats m request w =
     (case post_messages request of
        None \<Rightarrow> (PostBadRequest, w)
      | Some messages \<Rightarrow>
          if messages = [] \<or> cm_content (last messages) = [] then (PostBadRequest, w)
          else
            let (sessionId, w1) =
                  (case post_sessionId request of
                     None \<Rightarrow> uuidv4 w
                   | Some s \<Rightarrow> if s \<noteq> [] then (s, w) else uuidv4 w);
                existingMessages = getMessages w1;
                userQuestion = cm_content (last messages);
                isDuplicate =
                  (\<exists>msg\<in>set existingMessages.
                     msg_type msg = Some ''human'' \<and> trim (content msg) = trim userQuestion)
            in if \<not> isDuplicate then
                 let (userMessageId, w2) = uuidv4 w1;
                     userMessage = setMessageId (HumanMessage userQuestion) userMessageId
                 in answer m sessionId userQuestion (addMessage userMessage w2)
               else
                 (case pop (filter (\<lambda>msg. msg_type msg = Some ''human'' \<and> content msg = userQuestion)
                              existingMessages) of
                    None \<Rightarrow> (PostServiceUnavailable, w1)
                  | Some existingUserMsg \<Rightarrow>
                      let (userMessageId, w2) =
                            (if truthy (getMessageId existingUserMsg)
                             then (getMessageId existingUserMsg, w1)
                             else (let (u, w') = uuidv4 w1 in (JStr u, w')))
                      in answer m sessionId userQuestion w2))"

section \<open>Removing duplicates: \<^verbatim>\<open>cleanupDuplicates\<close>\<close>

record cleanup_body =
  cleanup_success :: bool
  removedDuplicates :: int
  totalMessages :: nat

text \<open>The responses: \<^verbatim>\<open>badRequest('sessionId is required')\<close> and the JSON report.\<close>

datatype cleanup_response =
    CleanupBadRequest
  | CleanupData cleanup_body

text \<open>
  \<^verbatim>\<open>${msg.type}\<close> in a template string: the text \<^verbatim>\<open>undefined\<close> when the message has
  no such property.
\<close>

definition type_text :: "string option \<Rightarrow> string" where
  "type_text ty = (case ty of None \<Rightarrow> ''undefined'' | Some t \<Rightarrow> t)"

text \<open>
  The loop over the stored messages. The key of a message is the template string
  \<^verbatim>\<open>`${msg.type}:${msg.content}`\<close>. A message whose key is new is kept as it is
  when it has an identifier. Otherwise a fresh identifier is drawn, and a new
  \<^verbatim>\<open>HumanMessage\<close> or \<^verbatim>\<open>AIMessage\<close> of the same content is kept in its place when
  \<^verbatim>\<open>msg.type\<close> is \<^verbatim>\<open>'human'\<close> or \<^verbatim>\<open>'ai'\<close>; with any other \<^verbatim>\<open>msg.type\<close> nothing
  is kept for the message.
\<close>

fun dedup_loop :: "message list \<Rightarrow> string set \<Rightarrow> message list \<Rightarrow> world \<Rightarrow> message list \<times> world" where
  "dedup_loop [] seenContent uniqueMessages w = (uniqueMessages, w)"
| "dedup_loop (msg # rest) seenContent uniqueMessages w =
     (let key = type_text (msg_type msg) @ '':'' @ content msg
      in if key \<notin> seenContent then
           (if \<not> truthy (getMessageId msg) then
              (let (newId, w') = uuidv4 w
               in if msg_type msg = Some ''human'' then
                    dedup_loop rest (insert key seenContent)
                      (uniqueMessages @ [setMessageId (HumanMessage (content msg)) newId]) w'
                  else if msg_type msg = Some ''ai'' then
                    dedup_loop rest (insert key seenContent)
                      (uniqueMessages @ [setMessageId (AIMessage (content msg)) newId]) w'
                  else dedup_loop rest (insert key seenContent) uniqueMessages w')
            else dedup_loop rest (insert key seenContent) (uniqueMessages @ [msg]) w)
         else dedup_loop rest seenContent uniqueMessages w)"

definition cleanupDuplicates :: "jsval \<Rightarrow> world \<Rightarrow> cleanup_response \<times> world" where
  "cleanupDuplicates sessionId w =
     (if \<not> truthy sessionId then (CleanupBadRequest, w)
      else
        let messages = getMessages w;
            (uniqueMessages, w1) = dedup_loop messages {} [] w;
            removedCount = int (length messages) - int (length uniqueMessages);
            w2 = (if removedCount > 0 then fold addMessage uniqueMessages (clear w1) else w1)
        in (CleanupData
              \<lparr> cleanup_success = True, removedDuplicates = removedCount,
                totalMessages = length uniqueMessages \<rparr>, w2))"

section \<open>The client generator: \<^verbatim>\<open>getCompletion\<close>\<close>

text \<open>
  A streamed response carries an optional \<^verbatim>\<open>delta\<close> (\<open>None\<close> when the field is
  missing or \<^verbatim>\<open>null\<close>) and an optional context. What the generator yields for a
  response is a promise that a timer of \<^verbatim>\<open>chunkIntervalMs\<close> milliseconds resolves
  with that response: the pair of the timer's delay and the value.
\<close>

record ai_delta =
  delta_content :: string
  delta_role :: string

record completion_delta =
  delta :: "ai_delta option"
  delta_context :: "jsobject option"

record chat_request_options =
  opt_messages :: "chat_message list"
  opt_context :: "jsobject option"
  chunkIntervalMs :: int
  apiUrl :: string

record delayed =
  timeout_ms :: int
  resolves_with :: completion_delta

fun republish :: "int \<Rightarrow> completion_delta list \<Rightarrow> delayed list" where
  "republish ms [] = []"
| "republish ms (response # rest) =
     (if delta response = None then republish ms rest
      else \<lparr> timeout_ms = ms, resolves_with = response \<rparr> # republish ms rest)"

text \<open>
  \<open>getStreamedCompletion\<close> is the protocol client: given the endpoint, the messages
  and the context it returns the responses of the stream. \<open>apiBaseUrl\<close> is the
  module constant read from the build environment.
\<close>

definition getCompletion ::
  "string \<Rightarrow> (string \<Rightarrow> chat_message list \<Rightarrow> jsobject option \<Rightarrow> completion_delta list) \<Rightarrow>
   chat_request_options \<Rightarrow> delayed list" where
  "getCompletion apiBaseUrl getStreamedCompletion options =
     (let url = (if apiUrl options \<noteq> [] then apiUrl options else apiBaseUrl);
          result = getStreamedCompletion (url @ ''/api/chats'') (opt_messages options)
                     (opt_context options)
      in republish (chunkIntervalMs options) result)"

section \<open>Notions used in the statements\<close>

text \<open>Effects that add a message, and effects of the title generation.\<close>

fun is_AddMessage :: "effect \<Rightarrow> bool" where
  "is_AddMessage (AddMessage msg) = True"
| "is_AddMessage e = False"

fun is_title_effect :: "effect \<Rightarrow> bool" where
  "is_title_effect (TitleModel q) = True"
| "is_title_effect (SetContext c) = True"
| "is_title_effect e = False"

text \<open>
  The first step of \<open>postChats\<close> on a valid request: the session identifier of the
  request, or a fresh one when the request has none.
\<close>

definition resolve_session :: "post_request \<Rightarrow> world \<Rightarrow> string \<times> world" where
  "resolve_session request w =
     (case post_sessionId request of
        None \<Rightarrow> uuidv4 w
      | Some s \<Rightarrow> if s \<noteq> [] then (s, w) else uuidv4 w)"

subsection \<open>Sample sessions\<close>

text \<open>
  A session of one question and one answer whose messages carry the positional
  entries that an earlier deletion wrote, a session of three messages as the chat
  handler stores them, and a deletion request for a given identifier. Further down:
  an empty session, a stream of responses for the client, a session in which a
  question occurs twice, answers of the two model chains, and a request that posts
  a question to session \<^verbatim>\<open>s1\<close>.
\<close>

definition example_question :: message where
  "example_question =
     \<lparr> msg_class = ''HumanMessage'', msg_type = None, content = ''hello'',
       additional_kwargs = Some [''messageId'' \<mapsto> JStr ''u1'', ''title'' \<mapsto> JStr ''Greeting''],
       response_metadata = Some [''messageId'' \<mapsto> JStr ''u1''],
       messageId = JStr ''u1'', msg_id = JUndefined \<rparr>"

definition example_answer :: message where
  "example_answer =
     \<lparr> msg_class = ''AIMessage'', msg_type = None, content = ''hi there'',
       additional_kwargs = Some [''messageId'' \<mapsto> JStr ''a1'', ''messageIndex'' \<mapsto> JNum 1,
         ''isFirst'' \<mapsto> JBool False, ''isLast'' \<mapsto> JBool True],
       response_metadata = Some [''messageId'' \<mapsto> JStr ''a1''],
       messageId = JStr ''a1'', msg_id = JUndefined \<rparr>"

definition example_world :: world where
  "example_world =
     \<lparr> history = [example_question, example_answer],
       session_context = [''title'' \<mapsto> JStr ''Greeting''],
       uuid_source = (\<lambda>n. ''uuid-'' @ replicate n (CHR ''x'')),
       uuid_next = 0, trace = [] \<rparr>"

definition example_delete :: "string \<Rightarrow> delete_request" where
  "example_delete mid =
     \<lparr> req_messageId = JStr mid, req_sessionId = JStr ''s1'', req_userId = JStr ''alice'',
       req_now = ''2025-01-01T00:00:00.000Z'' \<rparr>"

definition example_plain_world :: world where
  "example_plain_world =
     \<lparr> history =
         [setMessageId (HumanMessage ''hello'') ''u1'',
          setMessageId (AIMessage ''hi there'') ''a1'',
          setMessageId (HumanMessage ''how are you?'') ''u2''],
       session_context = [''title'' \<mapsto> JStr ''Greeting''],
       uuid_source = (\<lambda>n. ''uuid-'' @ replicate n (CHR ''x'')),
       uuid_next = 0, trace = [] \<rparr>"

definition example_empty_world :: world where
  "example_empty_world =
     \<lparr> history = [], session_context = Map.empty,
       uuid_source = (\<lambda>n. ''uuid-'' @ replicate n (CHR ''x'')),
       uuid_next = 0, trace = [] \<rparr>"

definition example_responses :: "completion_delta list" where
  "example_responses =
     [\<lparr> delta = Some \<lparr> delta_content = ''Hi'', delta_role = ''assistant'' \<rparr>, delta_context = None \<rparr>,
      \<lparr> delta = None, delta_context = Some [''sessionId'' \<mapsto> JStr ''s1''] \<rparr>,
      \<lparr> delta = Some \<lparr> delta_content = '' there'', delta_role = ''assistant'' \<rparr>, delta_context = None \<rparr>]"

definition example_options :: chat_request_options where
  "example_options =
     \<lparr> opt_messages = [\<lparr> cm_content = ''hello'', cm_role = ''user'' \<rparr>], opt_context = None,
       chunkIntervalMs = 30, apiUrl = [] \<rparr>"

definition example_duplicates :: world where
  "example_duplicates =
     \<lparr> history =
         [setMessageId (HumanMessage ''hello'') ''u1'',
          AIMessage ''hi there'',
          setMessageId (HumanMessage ''hello'') ''u2'',
          setMessageId (AIMessage ''hello'') ''a2''],
       session_context = Map.empty,
       uuid_source = (\<lambda>n. ''uuid-'' @ replicate n (CHR ''x'')),
       uuid_next = 0, trace = [] \<rparr>"

definition example_models :: models where
  "example_models =
     \<lparr> ragChainStream = (\<lambda>question msgs. [''RAG is'', '' retrieval.'']),
       titleChain = (\<lambda>question. ''About RAG'') \<rparr>"

definition example_post :: "string \<Rightarrow> post_request" where
  "example_post question =
     \<lparr> post_messages = Some [\<lparr> cm_content = question, cm_role = ''user'' \<rparr>],
       post_sessionId = Some ''s1'' \<rparr>"

section \<open>Message identifiers\<close>

lemma getMessageId_first_truthy:
  "getMessageId msg =
     first_truthy [opt_prop (additional_kwargs msg) ''messageId'',
                   opt_prop (response_metadata msg) ''messageId'',
                   messageId msg, msg_id msg]"
  by (simp add: getMessageId_def js_or_def)

lemma getMessageId_setMessageId:
  "mid \<noteq> [] \<Longrightarrow> getMessageId (setMessageId msg mid) = JStr mid"
  by (simp add: getMessageId_def setMessageId_def js_or_def opt_prop_def get_prop_def)

text \<open>
  C6. Message identifiers round-trip through the side-channel fields: after
  \<open>setMessageId message mid\<close> with a non-empty \<open>mid\<close>, \<open>getMessageId\<close> returns
  \<open>mid\<close>; and \<open>getMessageId\<close> of any message is the first truthy value among
  \<^verbatim>\<open>additional_kwargs.messageId\<close>, \<^verbatim>\<open>response_metadata.messageId\<close>, \<^verbatim>\<open>messageId\<close> and
  \<^verbatim>\<open>id\<close>, in that order (\<^verbatim>\<open>null\<close> when none is truthy).
\<close>

theorem message_id_roundtrip:
  "(mid \<noteq> [] \<longrightarrow> getMessageId (setMessageId msg mid) = JStr mid) \<and>
   getMessageId other =
     first_truthy [opt_prop (additional_kwargs other) ''messageId'',
                   opt_prop (response_metadata other) ''messageId'',
                   messageId other, msg_id other]"
  using getMessageId_setMessageId [of mid msg] getMessageId_first_truthy [of other]
  by simp

theorem message_id_roundtrip_witness:
  "''m-1'' \<noteq> [] \<and>
   getMessageId (setMessageId (HumanMessage ''hello'') ''m-1'') = JStr ''m-1'' \<and>
   getMessageId \<lparr> msg_class = ''AIMessage'', msg_type = None, content = ''x'',
       additional_kwargs = Some [''title'' \<mapsto> JStr ''t''],
       response_metadata = Some [''messageId'' \<mapsto> JStr ''r-7''],
       messageId = JStr ''p-3'', msg_id = JUndefined \<rparr> = JStr ''r-7''"
  using message_id_roundtrip [of "''m-1''" "HumanMessage ''hello''"
      "\<lparr> msg_class = ''AIMessage'', msg_type = None, content = ''x'',
         additional_kwargs = Some [''title'' \<mapsto> JStr ''t''],
         response_metadata = Some [''messageId'' \<mapsto> JStr ''r-7''],
         messageId = JStr ''p-3'', msg_id = JUndefined \<rparr>"]
  by (simp add: opt_prop_def get_prop_def)


section \<open>Deleting one message\<close>

lemma withMetadata_fields:
  "msg_type (withMetadata sm n i m) = msg_type m"
  "content (withMetadata sm n i m) = content m"
  "response_metadata (withMetadata sm n i m) = response_metadata m"
  "messageId (withMetadata sm n i m) = messageId m"
  "msg_id (withMetadata sm n i m) = msg_id m"
  by (simp_all add: withMetadata_def Let_def)

lemma withMetadata_erase:
  "(withMetadata sm n i m) \<lparr> additional_kwargs := None \<rparr> = m \<lparr> additional_kwargs := None \<rparr>"
  by (simp add: withMetadata_def Let_def)

lemma getMessageId_withMetadata:
  "getMessageId (withMetadata sm n i m) = getMessageId m"
  by (cases "additional_kwargs m")
     (auto simp add: withMetadata_def Let_def getMessageId_def js_or_def opt_prop_def
        get_prop_def or_empty_def split: option.splits)

lemma history_readd:
  "history (readd sm n i ms w) = history w @ map (\<lambda>(j, m). withMetadata sm n j m) (enumerate i ms)"
  by (induction ms arbitrary: i w) (simp_all add: addMessage_def)

lemma trace_readd:
  "trace (readd sm n i ms w) =
     trace w @ map (\<lambda>(j, m). AddMessage (withMetadata sm n j m)) (enumerate i ms)"
  by (induction ms arbitrary: i w) (simp_all add: addMessage_def)

lemma frame_readd:
  "session_context (readd sm n i ms w) = session_context w"
  "uuid_next (readd sm n i ms w) = uuid_next w"
  "uuid_source (readd sm n i ms w) = uuid_source w"
  by (induction ms arbitrary: i w) (simp_all add: addMessage_def)


lemma map_enumerate_cong:
  assumes "\<And>j m. g (f j m) = h m"
  shows "map g (map (\<lambda>(j, m). f j m) (enumerate i ms)) = map h ms"
  by (induction ms arbitrary: i) (simp_all add: assms)

lemma length_history_readd:
  "length (history (readd sm n i ms w)) = length (history w) + length ms"
  by (simp add: history_readd)

lemma nth_history_readd:
  "j < length ms \<Longrightarrow>
   history (readd sm n i ms (clear w)) ! j = withMetadata sm n (i + j) (ms ! j)"
  by (simp add: history_readd clear_def nth_enumerate_eq)

lemma deleteMessage_found:
  assumes "truthy (req_messageId r)" "truthy (req_sessionId r)" "truthy (req_userId r)"
    and "\<exists>m\<in>set (history w). getMessageId m = req_messageId r"
  shows "deleteMessage r w =
     (DeleteData
        \<lparr> success = True, deletedMessageId = req_messageId r,
          remainingMessages = length (filter (\<lambda>msg. getMessageId msg \<noteq> req_messageId r) (history w)),
          preservedMetadata =
            dom (extractSessionMetadata (history w) (req_sessionId r) (req_userId r) (req_now r)) \<rparr>,
      readd (extractSessionMetadata (history w) (req_sessionId r) (req_userId r) (req_now r))
        (length (filter (\<lambda>msg. getMessageId msg \<noteq> req_messageId r) (history w))) 0
        (filter (\<lambda>msg. getMessageId msg \<noteq> req_messageId r) (history w)) (clear w))"
proof -
  from assms(4) have ne: "history w \<noteq> []" by auto
  from assms(4) obtain x where "find (\<lambda>msg. getMessageId msg = req_messageId r) (history w) = Some x"
    by (cases "find (\<lambda>msg. getMessageId msg = req_messageId r) (history w)")
       (auto simp add: find_None_iff)
  with assms(1-3) ne show ?thesis
    by (simp add: deleteMessage_def Let_def getMessages_def)
qed

lemma deleteMessage_not_found:
  assumes "history w = [] \<or> (\<forall>m\<in>set (history w). getMessageId m \<noteq> req_messageId r)"
  shows "\<exists>e. deleteMessage r w = (BadRequest e, w)"
proof (cases "history w = []")
  case True
  then show ?thesis by (simp add: deleteMessage_def Let_def getMessages_def)
next
  case False
  with assms have "find (\<lambda>msg. getMessageId msg = req_messageId r) (history w) = None"
    by (simp add: find_None_iff)
  then show ?thesis by (simp add: deleteMessage_def Let_def getMessages_def)
qed


lemma additional_kwargs_withMetadata:
  "additional_kwargs (withMetadata sm n i m) =
     Some ((sm ++ or_empty (additional_kwargs m))
        (''messageId'' \<mapsto> js_or (get_prop (or_empty (additional_kwargs m)) ''messageId'') (getMessageId m),
         ''messageIndex'' \<mapsto> JNum (int i),
         ''isFirst'' \<mapsto> JBool (i = 0),
         ''isLast'' \<mapsto> JBool (int i = int n - 1)))"
  by (cases "additional_kwargs m")
     (simp_all add: withMetadata_def Let_def or_empty_def getMessageId_def opt_prop_def get_prop_def)

lemma own_field_withMetadata:
  assumes "or_empty (additional_kwargs m) k = Some v"
    and "k \<notin> {''messageId'', ''messageIndex'', ''isFirst'', ''isLast''}"
  shows "or_empty (additional_kwargs (withMetadata sm n i m)) k = Some v"
  using assms by (simp add: additional_kwargs_withMetadata or_empty_def map_add_def)

lemma inherited_field_withMetadata:
  assumes "sm k = Some v" and "or_empty (additional_kwargs m) k = None"
    and "k \<notin> {''messageId'', ''messageIndex'', ''isFirst'', ''isLast''}"
  shows "or_empty (additional_kwargs (withMetadata sm n i m)) k = Some v"
  using assms by (simp add: additional_kwargs_withMetadata or_empty_def map_add_def)

lemma dom_withMetadata:
  "dom sm \<subseteq> dom (or_empty (additional_kwargs (withMetadata sm n i m)))"
  by (auto simp add: additional_kwargs_withMetadata or_empty_def)

lemma messageId_field_withMetadata:
  assumes "truthy (opt_prop (additional_kwargs m) ''messageId'')"
  shows "opt_prop (additional_kwargs (withMetadata sm n i m)) ''messageId'' =
         opt_prop (additional_kwargs m) ''messageId''"
  using assms
  by (cases "additional_kwargs m")
     (simp_all add: additional_kwargs_withMetadata or_empty_def opt_prop_def get_prop_def js_or_def)

lemma extractSessionMetadata_field:
  assumes "additional_kwargs firstMessage = Some kw" and "kw k = Some v"
    and "k \<notin> {''messageId'', ''content'', ''role''}"
  shows "extractSessionMetadata (firstMessage # rest) sessionId userId now k = Some v"
  using assms by (simp add: extractSessionMetadata_def map_add_def restrict_map_def)


lemmas example_defs =
  example_delete_def example_world_def example_question_def example_answer_def

lemmas eval_defs =
  getMessages_def getMessageId_def js_or_def opt_prop_def get_prop_def or_empty_def
  clear_def addMessage_def withMetadata_def extractSessionMetadata_def Let_def

text \<open>
  C3. When some message of the session has the requested identifier (and the request
  names a message, a session and a user, so that the handler reaches the store),
  \<open>deleteMessage\<close> leaves exactly the messages with another identifier, in their
  original order: the stored messages are those of the filtered list, each unchanged
  outside its \<^verbatim>\<open>additional_kwargs\<close> and with the identifier it had; the store is
  cleared once and the filtered list re-added message by message; and the response
  reports \<^verbatim>\<open>remainingMessages\<close> as the original count less the number of messages
  with the requested identifier.
\<close>

theorem deleteMessage_removes_matching:
  assumes "truthy (req_messageId r)" and "truthy (req_sessionId r)" and "truthy (req_userId r)"
    and "\<exists>m\<in>set (history w). getMessageId m = req_messageId r"
  shows
    "map (\<lambda>m. m \<lparr> additional_kwargs := None \<rparr>) (history (snd (deleteMessage r w))) =
       map (\<lambda>m. m \<lparr> additional_kwargs := None \<rparr>)
         (filter (\<lambda>m. getMessageId m \<noteq> req_messageId r) (history w)) \<and>
     map getMessageId (history (snd (deleteMessage r w))) =
       map getMessageId (filter (\<lambda>m. getMessageId m \<noteq> req_messageId r) (history w)) \<and>
     trace (snd (deleteMessage r w)) =
       trace w @ Clear # map AddMessage (history (snd (deleteMessage r w))) \<and>
     (\<exists>body. fst (deleteMessage r w) = DeleteData body \<and> success body \<and>
        deletedMessageId body = req_messageId r \<and>
        remainingMessages body = length (history (snd (deleteMessage r w))) \<and>
        remainingMessages body +
          length (filter (\<lambda>m. getMessageId m = req_messageId r) (history w)) =
        length (history w))"
proof -
  let ?f = "filter (\<lambda>m. getMessageId m \<noteq> req_messageId r) (history w)"
  let ?sm = "extractSessionMetadata (history w) (req_sessionId r) (req_userId r) (req_now r)"
  let ?w' = "snd (deleteMessage r w)"
  have w': "?w' = readd ?sm (length ?f) 0 ?f (clear w)"
    by (simp add: deleteMessage_found [OF assms])
  have hist: "history ?w' = map (\<lambda>(j, m). withMetadata ?sm (length ?f) j m) (enumerate 0 ?f)"
    by (simp add: w' history_readd clear_def)
  have tr: "trace ?w' = trace w @ Clear # map AddMessage (history ?w')"
    by (simp add: hist) (simp add: w' trace_readd clear_def case_prod_unfold)
  have count: "length ?f + length (filter (\<lambda>m. getMessageId m = req_messageId r) (history w)) =
      length (history w)"
    using sum_length_filter_compl [of "\<lambda>m. getMessageId m = req_messageId r" "history w"]
    by simp
  have a: "map (\<lambda>m. m \<lparr> additional_kwargs := None \<rparr>) (history ?w') =
      map (\<lambda>m. m \<lparr> additional_kwargs := None \<rparr>) ?f"
    unfolding hist by (rule map_enumerate_cong) (rule withMetadata_erase)
  have b: "map getMessageId (history ?w') = map getMessageId ?f"
    unfolding hist by (rule map_enumerate_cong) (rule getMessageId_withMetadata)
  have len: "length (history ?w') = length ?f"
    by (simp add: hist)
  have d: "\<exists>body. fst (deleteMessage r w) = DeleteData body \<and> success body \<and>
        deletedMessageId body = req_messageId r \<and>
        remainingMessages body = length (history ?w') \<and>
        remainingMessages body +
          length (filter (\<lambda>m. getMessageId m = req_messageId r) (history w)) =
        length (history w)"
    by (simp add: len count) (simp add: deleteMessage_found [OF assms] count)
  from a b tr d show ?thesis by blast
qed

theorem deleteMessage_removes_matching_witness:
  "truthy (req_messageId (example_delete ''u1'')) \<and>
   truthy (req_sessionId (example_delete ''u1'')) \<and>
   truthy (req_userId (example_delete ''u1'')) \<and>
   (\<exists>m\<in>set (history example_world). getMessageId m = req_messageId (example_delete ''u1'')) \<and>
   map content (history (snd (deleteMessage (example_delete ''u1'') example_world))) = [''hi there''] \<and>
   map getMessageId (history (snd (deleteMessage (example_delete ''u1'') example_world))) =
     [JStr ''a1''] \<and>
   fst (deleteMessage (example_delete ''u1'') example_world) =
     DeleteData \<lparr> success = True, deletedMessageId = JStr ''u1'', remainingMessages = 1,
       preservedMetadata = {''title'', ''sessionId'', ''userId'', ''createdAt'', ''updatedAt''} \<rparr>"
proof -
  have h: "truthy (req_messageId (example_delete ''u1''))"
      "truthy (req_sessionId (example_delete ''u1''))"
      "truthy (req_userId (example_delete ''u1''))"
      "\<exists>m\<in>set (history example_world). getMessageId m = req_messageId (example_delete ''u1'')"
    by (simp_all add: example_defs eval_defs)
  show ?thesis
    using h deleteMessage_removes_matching [OF h]
    by (auto simp add: example_defs eval_defs deleteMessage_def)
qed


text \<open>
  C9. A failed lookup changes nothing: when the session has no messages, or no
  message has the requested identifier, \<open>deleteMessage\<close> answers with a bad request
  and the world is the one it started from, trace included, so \<^verbatim>\<open>clear\<close> was not
  called.
\<close>

theorem deleteMessage_lookup_failure:
  assumes "history w = [] \<or> (\<forall>m\<in>set (history w). getMessageId m \<noteq> req_messageId r)"
  shows "(\<exists>e. fst (deleteMessage r w) = BadRequest e) \<and> snd (deleteMessage r w) = w"
  using deleteMessage_not_found [OF assms] by auto

theorem deleteMessage_lookup_failure_witness:
  "(history example_world = [] \<or>
      (\<forall>m\<in>set (history example_world). getMessageId m \<noteq> req_messageId (example_delete ''zz''))) \<and>
   fst (deleteMessage (example_delete ''zz'') example_world) =
     BadRequest (MessageNotFound (JStr ''zz'')) \<and>
   snd (deleteMessage (example_delete ''zz'') example_world) = example_world \<and>
   trace (snd (deleteMessage (example_delete ''zz'') example_world)) = []"
proof -
  have h: "history example_world = [] \<or>
      (\<forall>m\<in>set (history example_world). getMessageId m \<noteq> req_messageId (example_delete ''zz''))"
    by (simp add: example_defs eval_defs)
  have t: "trace example_world = []"
    by (simp add: example_world_def)
  have f: "fst (deleteMessage (example_delete ''zz'') example_world) =
     BadRequest (MessageNotFound (JStr ''zz''))"
    by (simp add: example_defs eval_defs deleteMessage_def)
  from h f t deleteMessage_lookup_failure [OF h] show ?thesis by simp
qed

text \<open>
  C4, as amended. After a deletion every re-added message has an
  \<^verbatim>\<open>additional_kwargs\<close> object and the identifier it had before. Each of its own
  entries other than \<^verbatim>\<open>messageId\<close>, \<^verbatim>\<open>messageIndex\<close>, \<^verbatim>\<open>isFirst\<close> and \<^verbatim>\<open>isLast\<close>
  is unchanged, and so is its \<^verbatim>\<open>messageId\<close> entry when that was truthy. Every entry
  of the first original message's \<^verbatim>\<open>additional_kwargs\<close> other than \<^verbatim>\<open>messageId\<close>,
  \<^verbatim>\<open>content\<close> and \<^verbatim>\<open>role\<close> is a key of the re-added message, with the first
  message's value where the message has no entry of its own under that key and the
  key is not positional.
\<close>

theorem deleteMessage_metadata:
  assumes "truthy (req_messageId r)" and "truthy (req_sessionId r)" and "truthy (req_userId r)"
    and "\<exists>m\<in>set (history w). getMessageId m = req_messageId r"
    and "j < length (filter (\<lambda>m. getMessageId m \<noteq> req_messageId r) (history w))"
  shows
    "let original = filter (\<lambda>m. getMessageId m \<noteq> req_messageId r) (history w) ! j;
         readded = history (snd (deleteMessage r w)) ! j;
         own = or_empty (additional_kwargs original);
         new = or_empty (additional_kwargs readded)
     in additional_kwargs readded \<noteq> None \<and>
        getMessageId readded = getMessageId original \<and>
        (\<forall>k v. own k = Some v \<and>
             k \<notin> {''messageId'', ''messageIndex'', ''isFirst'', ''isLast''} \<longrightarrow>
           new k = Some v) \<and>
        (truthy (get_prop own ''messageId'') \<longrightarrow>
           get_prop new ''messageId'' = get_prop own ''messageId'') \<and>
        (\<forall>kw k v. additional_kwargs (hd (history w)) = Some kw \<and> kw k = Some v \<and>
             k \<notin> {''messageId'', ''content'', ''role''} \<longrightarrow>
           k \<in> dom new \<and>
           (own k = None \<and> k \<notin> {''messageIndex'', ''isFirst'', ''isLast''} \<longrightarrow>
              new k = Some v))"
proof -
  let ?f = "filter (\<lambda>m. getMessageId m \<noteq> req_messageId r) (history w)"
  let ?sm = "extractSessionMetadata (history w) (req_sessionId r) (req_userId r) (req_now r)"
  let ?m = "?f ! j"
  let ?m' = "withMetadata ?sm (length ?f) j ?m"
  have re: "history (snd (deleteMessage r w)) ! j = ?m'"
    using assms(5) by (simp add: deleteMessage_found [OF assms(1-4)] nth_history_readd)
  from assms(4) obtain firstMessage rest where hw: "history w = firstMessage # rest"
    by (cases "history w") auto
  have 1: "additional_kwargs ?m' \<noteq> None"
    by (simp add: additional_kwargs_withMetadata)
  have 2: "getMessageId ?m' = getMessageId ?m"
    by (rule getMessageId_withMetadata)
  have 3: "\<forall>k v. or_empty (additional_kwargs ?m) k = Some v \<and>
             k \<notin> {''messageId'', ''messageIndex'', ''isFirst'', ''isLast''} \<longrightarrow>
           or_empty (additional_kwargs ?m') k = Some v"
    by (intro allI impI, elim conjE) (rule own_field_withMetadata)
  have 4: "truthy (get_prop (or_empty (additional_kwargs ?m)) ''messageId'') \<longrightarrow>
      get_prop (or_empty (additional_kwargs ?m')) ''messageId'' =
      get_prop (or_empty (additional_kwargs ?m)) ''messageId''"
    by (simp add: additional_kwargs_withMetadata or_empty_def get_prop_def js_or_def)
  have 5: "\<forall>kw k v. additional_kwargs (hd (history w)) = Some kw \<and> kw k = Some v \<and>
             k \<notin> {''messageId'', ''content'', ''role''} \<longrightarrow>
           k \<in> dom (or_empty (additional_kwargs ?m')) \<and>
           (or_empty (additional_kwargs ?m) k = None \<and>
              k \<notin> {''messageIndex'', ''isFirst'', ''isLast''} \<longrightarrow>
            or_empty (additional_kwargs ?m') k = Some v)"
  proof (intro allI impI, elim conjE)
    fix kw k v
    assume kw: "additional_kwargs (hd (history w)) = Some kw" and kv: "kw k = Some v"
      and k: "k \<notin> {''messageId'', ''content'', ''role''}"
    from kw kv k have sm: "?sm k = Some v"
      by (simp add: hw extractSessionMetadata_field)
    then have "k \<in> dom ?sm" by auto
    with dom_withMetadata [of ?sm "length ?f" j ?m]
    have d: "k \<in> dom (or_empty (additional_kwargs ?m'))" by auto
    have "or_empty (additional_kwargs ?m') k = Some v"
      if "or_empty (additional_kwargs ?m) k = None"
        "k \<notin> {''messageIndex'', ''isFirst'', ''isLast''}"
      using sm that k by (intro inherited_field_withMetadata) auto
    with d show "k \<in> dom (or_empty (additional_kwargs ?m')) \<and>
           (or_empty (additional_kwargs ?m) k = None \<and>
              k \<notin> {''messageIndex'', ''isFirst'', ''isLast''} \<longrightarrow>
            or_empty (additional_kwargs ?m') k = Some v)"
      by (intro conjI impI) (assumption, elim conjE)
  qed
  show ?thesis
    unfolding Let_def re using 1 2 3 4 5 by (intro conjI)
qed


theorem deleteMessage_metadata_witness:
  "truthy (req_messageId (example_delete ''u1'')) \<and>
   truthy (req_sessionId (example_delete ''u1'')) \<and>
   truthy (req_userId (example_delete ''u1'')) \<and>
   (\<exists>m\<in>set (history example_world). getMessageId m = req_messageId (example_delete ''u1'')) \<and>
   0 < length (filter (\<lambda>m. getMessageId m \<noteq> req_messageId (example_delete ''u1''))
         (history example_world)) \<and>
   additional_kwargs (hd (history example_world)) =
     Some [''messageId'' \<mapsto> JStr ''u1'', ''title'' \<mapsto> JStr ''Greeting''] \<and>
   or_empty (additional_kwargs
       (history (snd (deleteMessage (example_delete ''u1'') example_world)) ! 0)) ''title'' =
     Some (JStr ''Greeting'') \<and>
   getMessageId (history (snd (deleteMessage (example_delete ''u1'') example_world)) ! 0) =
     JStr ''a1''"
proof -
  have h: "truthy (req_messageId (example_delete ''u1''))"
      "truthy (req_sessionId (example_delete ''u1''))"
      "truthy (req_userId (example_delete ''u1''))"
      "\<exists>m\<in>set (history example_world). getMessageId m = req_messageId (example_delete ''u1'')"
      "0 < length (filter (\<lambda>m. getMessageId m \<noteq> req_messageId (example_delete ''u1''))
         (history example_world))"
    by (simp_all add: example_defs eval_defs)
  have f: "filter (\<lambda>m. getMessageId m \<noteq> req_messageId (example_delete ''u1''))
         (history example_world) ! 0 = example_answer"
    by (simp add: example_defs eval_defs)
  have k: "additional_kwargs (hd (history example_world)) =
     Some [''messageId'' \<mapsto> JStr ''u1'', ''title'' \<mapsto> JStr ''Greeting'']"
    by (simp add: example_defs)
  have o: "or_empty (additional_kwargs example_answer) ''title'' = None"
    by (simp add: example_defs or_empty_def)
  have g: "getMessageId example_answer = JStr ''a1''"
    by (simp add: example_defs eval_defs)
  note T = deleteMessage_metadata [OF h, unfolded Let_def f]
  from T have "getMessageId (history (snd (deleteMessage (example_delete ''u1'') example_world)) ! 0) =
     JStr ''a1''"
    by (simp add: g)
  moreover
  note T5 = T [THEN conjunct2, THEN conjunct2, THEN conjunct2, THEN conjunct2,
      THEN spec, THEN spec, THEN spec,
      of "[''messageId'' \<mapsto> JStr ''u1'', ''title'' \<mapsto> JStr ''Greeting'']" "''title''"
        "JStr ''Greeting''"]
  from T5 k o have "or_empty (additional_kwargs
       (history (snd (deleteMessage (example_delete ''u1'') example_world)) ! 0)) ''title'' =
     Some (JStr ''Greeting'')"
    by simp
  ultimately show ?thesis using h k by simp
qed

text \<open>
  C4 as stated fails on the positional entries. Deleting the answer from a session
  of three messages leaves the second question at index 1 with
  \<^verbatim>\<open>messageIndex = 1\<close> among its own entries; deleting the first question next
  re-adds it with \<^verbatim>\<open>messageIndex = 0\<close>.
\<close>

theorem deleteMessage_own_fields_counterexample:
  "getMessageId (history (snd (deleteMessage (example_delete ''a1'') example_plain_world)) ! 1) =
     JStr ''u2'' \<and>
   opt_prop (additional_kwargs
       (history (snd (deleteMessage (example_delete ''a1'') example_plain_world)) ! 1))
     ''messageIndex'' = JNum 1 \<and>
   getMessageId
     (history (snd (deleteMessage (example_delete ''u1'')
        (snd (deleteMessage (example_delete ''a1'') example_plain_world)))) ! 0) = JStr ''u2'' \<and>
   opt_prop (additional_kwargs
       (history (snd (deleteMessage (example_delete ''u1'')
          (snd (deleteMessage (example_delete ''a1'') example_plain_world)))) ! 0))
     ''messageIndex'' = JNum 0"
  by (simp add: example_delete_def example_plain_world_def eval_defs deleteMessage_def
      setMessageId_def HumanMessage_def AIMessage_def new_message_def)



section \<open>Streaming an answer\<close>

lemma stream_loop_eq:
  "stream_loop chunks sid mid full out =
     (full @ concat chunks,
      out @ map (\<lambda>c. stringify (responseChunk c sid mid) @ [CHR 0x0A]) (filter (\<lambda>c. c \<noteq> []) chunks))"
  by (induction chunks arbitrary: full out) simp_all

lemma concat_nonempty: "concat (filter (\<lambda>c. c \<noteq> []) chunks) = concat chunks"
  by (induction chunks) simp_all

lemma hex_digit_not_newline: "n < 16 \<Longrightarrow> hex_digit n \<noteq> CHR 0x0A"
proof -
  assume "n < 16"
  then have "hex_digit n \<in> set ''0123456789abcdef''"
    unfolding hex_digit_def by (intro nth_mem) simp
  then show ?thesis by auto
qed

lemma escape_char_no_newline: "CHR 0x0A \<notin> set (escape_char c)"
proof -
  have a: "CHR 0x0A \<noteq> hex_digit ((of_char c :: nat) div 16)" if "(of_char c :: nat) < 0x20"
  proof -
    from that have "(of_char c :: nat) div 16 < 16" by arith
    from hex_digit_not_newline [OF this] show ?thesis by simp
  qed
  have b: "CHR 0x0A \<noteq> hex_digit ((of_char c :: nat) mod 16)"
  proof -
    have "(of_char c :: nat) mod 16 < 16" by simp
    from hex_digit_not_newline [OF this] show ?thesis by simp
  qed
  show ?thesis
    using a b by (simp add: escape_char_def)
qed

lemma quote_no_newline: "CHR 0x0A \<notin> set (quoteJSONString s)"
  by (simp add: quoteJSONString_def escape_char_no_newline)

lemma join_no_newline:
  "\<forall>x\<in>set xs. c \<notin> set x \<Longrightarrow> c \<notin> set sep \<Longrightarrow> c \<notin> set (join sep xs)"
  by (induction sep xs rule: join.induct) simp_all

lemma stringify_no_newline: "CHR 0x0A \<notin> set (stringify j)"
proof (induction j)
  case (JsonString s)
  show ?case by (simp add: quote_no_newline)
next
  case (JsonObject members)
  have "\<forall>x\<in>set (map (\<lambda>kv. quoteJSONString (fst kv) @ '':'' @ stringify (snd kv)) members).
      CHR 0x0A \<notin> set x"
  proof
    fix x assume "x \<in> set (map (\<lambda>kv. quoteJSONString (fst kv) @ '':'' @ stringify (snd kv)) members)"
    then obtain kv where kv: "kv \<in> set members"
      and x: "x = quoteJSONString (fst kv) @ '':'' @ stringify (snd kv)" by auto
    have "snd kv \<in> Basic_BNFs.snds kv" by (cases kv) simp
    with JsonObject kv have "CHR 0x0A \<notin> set (stringify (snd kv))" by blast
    with x show "CHR 0x0A \<notin> set x" by (simp add: quote_no_newline)
  qed
  then have "CHR 0x0A \<notin> set (join '','' (map (\<lambda>kv. quoteJSONString (fst kv) @ '':'' @ stringify (snd kv)) members))"
    by (rule join_no_newline) simp
  then show ?case by simp
qed


lemma createJsonStream_eq:
  "createJsonStream chunks sid mid w =
     (map (\<lambda>c. stringify (responseChunk c sid mid) @ [CHR 0x0A]) (filter (\<lambda>c. c \<noteq> []) chunks),
      if trim (concat chunks) \<noteq> [] \<and>
         \<not> (\<exists>msg\<in>set (history w).
              msg_type msg = Some ''ai'' \<and> content msg = trim (concat chunks))
      then addMessage (setMessageId (AIMessage (concat chunks)) mid) w else w)"
  by (auto simp add: createJsonStream_def stream_loop_eq getMessages_def Let_def)

text \<open>
  C5. For every sequence of chunks the generator yields one line per non-empty
  chunk, in order: the serialization of the object with \<^verbatim>\<open>delta.content\<close> the chunk,
  \<^verbatim>\<open>delta.role\<close> \<^verbatim>\<open>'assistant'\<close> and a context of the session identifier and the one
  identifier of the answer, followed by a line feed, which is the only line feed of
  the line. When an answer is saved, its content is the concatenation of the
  contents yielded.
\<close>

theorem createJsonStream_lines:
  "fst (createJsonStream chunks sessionId mid w) =
     map (\<lambda>chunk.
            stringify
              (JsonObject
                [(''delta'', JsonObject [(''content'', JsonString chunk),
                                         (''role'', JsonString ''assistant'')]),
                 (''context'', JsonObject [(''sessionId'', JsonString sessionId),
                                           (''messageId'', JsonString mid)])])
            @ [CHR 0x0A])
       (filter (\<lambda>chunk. chunk \<noteq> []) chunks) \<and>
   (\<forall>line\<in>set (fst (createJsonStream chunks sessionId mid w)).
      line \<noteq> [] \<and> last line = CHR 0x0A \<and> CHR 0x0A \<notin> set (butlast line)) \<and>
   (snd (createJsonStream chunks sessionId mid w) = w \<or>
    snd (createJsonStream chunks sessionId mid w) =
      addMessage (setMessageId (AIMessage (concat (filter (\<lambda>chunk. chunk \<noteq> []) chunks))) mid) w)"
  by (auto simp add: createJsonStream_eq responseChunk_def [symmetric] concat_nonempty
      stringify_no_newline simp del: stringify.simps)

theorem createJsonStream_lines_witness:
  "(let q = (\<lambda>s. [CHR 0x22] @ s @ [CHR 0x22]);
        line = (\<lambda>c. ''{'' @ q ''delta'' @ '':{'' @ q ''content'' @ '':'' @ q c @ '','' @ q ''role'' @ '':''
                 @ q ''assistant'' @ ''},'' @ q ''context'' @ '':{'' @ q ''sessionId'' @ '':'' @ q ''s1''
                 @ '','' @ q ''messageId'' @ '':'' @ q ''m1'' @ ''}}'' @ [CHR 0x0A])
    in fst (createJsonStream [''Hi'', [], [CHR 0x0A]] ''s1'' ''m1'' example_empty_world) =
         [line ''Hi'', line [CHR 0x5C, CHR ''n'']]) \<and>
   history (snd (createJsonStream [''Hi'', [], [CHR 0x0A]] ''s1'' ''m1'' example_empty_world)) =
     [setMessageId (AIMessage (''Hi'' @ [CHR 0x0A])) ''m1'']"
  using createJsonStream_lines [of "[''Hi'', [], [CHR 0x0A]]" "''s1''" "''m1''" example_empty_world]
  by (simp add: createJsonStream_eq responseChunk_def quoteJSONString_def escape_char_def
      example_empty_world_def trim_def isWhiteSpace_def addMessage_def Let_def)


text \<open>
  A message that \<open>createJsonStream\<close> saves has no property \<^verbatim>\<open>type\<close>, so the check
  for an answer that is already stored does not find it: on a session whose messages
  have none, as the store returns them, every completed stream whose response is not
  blank appends its answer, and the session stays such a session.
\<close>

lemma createJsonStream_untyped:
  assumes "\<forall>msg\<in>set (history w). msg_type msg = None" and "trim (concat chunks) \<noteq> []"
  shows "snd (createJsonStream chunks sessionId mid w) =
         addMessage (setMessageId (AIMessage (concat chunks)) mid) w"
  using assms by (auto simp add: createJsonStream_eq)

lemma createJsonStream_stays_untyped:
  assumes "\<forall>msg\<in>set (history w). msg_type msg = None"
  shows "\<forall>msg\<in>set (history (snd (createJsonStream chunks sessionId mid w))). msg_type msg = None"
  using assms
  by (simp add: createJsonStream_eq addMessage_def setMessageId_def AIMessage_def new_message_def)

text \<open>
  C1. The answer of a completed stream is meant to be saved at most once, a second
  run of the same stream finding the answer of the first in the session. The check
  compares the stored contents with the trimmed response, while the message saved
  carries the response as it is, and it asks for \<^verbatim>\<open>msg.type === 'ai'\<close>, which no
  saved message satisfies: a stream whose response ends in a space, run twice on an
  empty session (a retried request), saves the same answer twice.
\<close>

theorem createJsonStream_rerun_duplicates:
  "map (\<lambda>m. (msg_class m, content m, getMessageId m))
     (history (snd (createJsonStream [''Hi'', '' ''] ''s1'' ''m2''
        (snd (createJsonStream [''Hi'', '' ''] ''s1'' ''m1'' example_empty_world))))) =
   [(''AIMessage'', ''Hi '', JStr ''m1''), (''AIMessage'', ''Hi '', JStr ''m2'')]"
  by (simp add: createJsonStream_eq example_empty_world_def trim_def isWhiteSpace_def
      addMessage_def setMessageId_def AIMessage_def new_message_def getMessageId_def js_or_def
      opt_prop_def get_prop_def or_empty_def)

section \<open>The client generator\<close>

lemma republish_values:
  "map resolves_with (republish ms rs) = filter (\<lambda>r. delta r \<noteq> None) rs"
  by (induction rs) simp_all

lemma republish_delays:
  "map timeout_ms (republish ms rs) = replicate (length (filter (\<lambda>r. delta r \<noteq> None) rs)) ms"
  by (induction rs) simp_all

text \<open>
  C8. The generator republishes exactly the responses that have a \<^verbatim>\<open>delta\<close>, once
  each and in the order received, every one through a timer of \<^verbatim>\<open>chunkIntervalMs\<close>
  milliseconds; a response without \<^verbatim>\<open>delta\<close> is skipped.
\<close>

theorem getCompletion_republishes:
  "map resolves_with (getCompletion apiBaseUrl client options) =
     filter (\<lambda>response. delta response \<noteq> None)
       (client ((if apiUrl options \<noteq> [] then apiUrl options else apiBaseUrl) @ ''/api/chats'')
          (opt_messages options) (opt_context options)) \<and>
   map timeout_ms (getCompletion apiBaseUrl client options) =
     replicate (length (getCompletion apiBaseUrl client options)) (chunkIntervalMs options)"
proof -
  have "length (republish ms rs) = length (filter (\<lambda>r. delta r \<noteq> None) rs)" for ms rs
    using republish_values [of ms rs] by (metis length_map)
  then show ?thesis
    by (simp add: getCompletion_def Let_def republish_values republish_delays)
qed

theorem getCompletion_republishes_witness:
  "map resolves_with (getCompletion ''http://localhost:7071'' (\<lambda>url ms c. example_responses) example_options) =
     [\<lparr> delta = Some \<lparr> delta_content = ''Hi'', delta_role = ''assistant'' \<rparr>, delta_context = None \<rparr>,
      \<lparr> delta = Some \<lparr> delta_content = '' there'', delta_role = ''assistant'' \<rparr>, delta_context = None \<rparr>] \<and>
   map timeout_ms (getCompletion ''http://localhost:7071'' (\<lambda>url ms c. example_responses) example_options) =
     [30, 30]"
  using getCompletion_republishes [of "''http://localhost:7071''" "\<lambda>url ms c. example_responses" example_options]
  by (simp add: example_responses_def example_options_def getCompletion_def)



section \<open>Removing duplicates\<close>

lemma fold_addMessage:
  "history (fold addMessage ms w) = history w @ ms"
  "trace (fold addMessage ms w) = trace w @ map AddMessage ms"
  by (induction ms arbitrary: w) (simp_all add: addMessage_def)

lemma cleanupDuplicates_eq:
  assumes "truthy sessionId"
  shows "cleanupDuplicates sessionId w =
     (CleanupData
        \<lparr> cleanup_success = True,
          removedDuplicates =
            int (length (history w)) - int (length (fst (dedup_loop (history w) {} [] w))),
          totalMessages = length (fst (dedup_loop (history w) {} [] w)) \<rparr>,
      if length (fst (dedup_loop (history w) {} [] w)) < length (history w)
      then fold addMessage (fst (dedup_loop (history w) {} [] w))
             (clear (snd (dedup_loop (history w) {} [] w)))
      else snd (dedup_loop (history w) {} [] w))"
  using assms
  by (simp add: cleanupDuplicates_def getMessages_def Let_def case_prod_unfold)

text \<open>
  On a message without property \<^verbatim>\<open>type\<close> the key is \<^verbatim>\<open>undefined:\<close> followed by the
  content, whatever the class of the message; and when such a message is the first
  of its key and has no identifier, the loop draws an identifier and keeps nothing.
\<close>

lemma dedup_loop_untyped_without_id:
  assumes "msg_type msg = None" and "\<not> truthy (getMessageId msg)"
    and "''undefined:'' @ content msg \<notin> seen"
  shows "dedup_loop (msg # rest) seen u w =
         dedup_loop rest (insert (''undefined:'' @ content msg) seen) u (snd (uuidv4 w))"
  using assms by (simp add: type_text_def Let_def case_prod_unfold)

lemma dedup_loop_untyped_seen:
  assumes "msg_type msg = None" and "''undefined:'' @ content msg \<in> seen"
  shows "dedup_loop (msg # rest) seen u w = dedup_loop rest seen u w"
  using assms by (simp add: type_text_def)

text \<open>
  C7. \<open>cleanupDuplicates\<close> is meant to keep exactly the first occurrence of each
  (type, content) pair. Its key is built from \<^verbatim>\<open>msg.type\<close>, which the stored messages
  do not have. On a session of a question, an answer without identifier, the
  question again and an answer with the text of the question, three different pairs
  occur; the handler keeps the first question only and reports three messages
  removed: the second answer is taken for a duplicate of the question, and the first
  answer, the first of its key, is replaced by nothing.
\<close>

theorem cleanupDuplicates_loses_first_occurrences:
  "map (\<lambda>m. (msg_class m, content m)) (history example_duplicates) =
     [(''HumanMessage'', ''hello''), (''AIMessage'', ''hi there''),
      (''HumanMessage'', ''hello''), (''AIMessage'', ''hello'')] \<and>
   map (\<lambda>m. (msg_class m, content m, getMessageId m))
     (history (snd (cleanupDuplicates (JStr ''s1'') example_duplicates))) =
     [(''HumanMessage'', ''hello'', JStr ''u1'')] \<and>
   fst (cleanupDuplicates (JStr ''s1'') example_duplicates) =
     CleanupData \<lparr> cleanup_success = True, removedDuplicates = 3, totalMessages = 1 \<rparr>"
  by (simp add: cleanupDuplicates_def example_duplicates_def getMessages_def Let_def
      type_text_def uuidv4_def clear_def addMessage_def setMessageId_def HumanMessage_def
      AIMessage_def new_message_def getMessageId_def js_or_def opt_prop_def get_prop_def
      or_empty_def)

section \<open>Posting a question\<close>

lemma answer_history: "history (snd (answer m sid q w)) = history w"
  by (simp add: answer_def Let_def uuidv4_def getContext_def setContext_def getMessages_def)

lemma answer_trace:
  "trace (snd (answer m sid q w)) =
     trace w @ [Retrieve q, RagStream q (history w)] @
       (if truthy (get_prop (session_context w) ''title'') then []
        else [TitleModel q, SetContext [''title'' \<mapsto> JStr (titleChain m q)]])"
  by (simp add: answer_def Let_def uuidv4_def getContext_def setContext_def getMessages_def)

lemma answer_context:
  "session_context (snd (answer m sid q w)) =
     (if truthy (get_prop (session_context w) ''title'') then session_context w
      else [''title'' \<mapsto> JStr (titleChain m q)])"
  by (simp add: answer_def Let_def uuidv4_def getContext_def setContext_def getMessages_def)

lemma resolve_session_frame:
  "history (snd (resolve_session request w)) = history w"
  "trace (snd (resolve_session request w)) = trace w"
  "session_context (snd (resolve_session request w)) = session_context w"
  "uuid_source (snd (resolve_session request w)) = uuid_source w"
  "uuid_next (snd (resolve_session request w)) =
     (if post_sessionId request = None \<or> post_sessionId request = Some []
      then Suc (uuid_next w) else uuid_next w)"
  by (simp_all add: resolve_session_def uuidv4_def split: option.splits)

lemma postChats_valid:
  assumes "post_messages request = Some messages" and "messages \<noteq> []"
    and "cm_content (last messages) \<noteq> []"
  shows "postChats m request w =
     (let sessionId = fst (resolve_session request w);
          w1 = snd (resolve_session request w);
          userQuestion = cm_content (last messages)
      in if \<not> (\<exists>msg\<in>set (history w1).
                 msg_type msg = Some ''human'' \<and> trim (content msg) = trim userQuestion)
         then answer m sessionId userQuestion
                (addMessage (setMessageId (HumanMessage userQuestion) (fst (uuidv4 w1)))
                   (snd (uuidv4 w1)))
         else (case pop (filter (\<lambda>msg. msg_type msg = Some ''human'' \<and> content msg = userQuestion)
                            (history w1)) of
                 None \<Rightarrow> (PostServiceUnavailable, w1)
               | Some existingUserMsg \<Rightarrow>
                   answer m sessionId userQuestion
                     (if truthy (getMessageId existingUserMsg) then w1 else snd (uuidv4 w1))))"
  using assms
  by (auto simp add: postChats_def resolve_session_def [symmetric] Let_def case_prod_unfold
      getMessages_def split: option.splits)


lemma uuidv4_frame:
  "history (snd (uuidv4 w)) = history w"
  "trace (snd (uuidv4 w)) = trace w"
  "session_context (snd (uuidv4 w)) = session_context w"
  "fst (uuidv4 w) = uuid_source w (uuid_next w)"
  by (simp_all add: uuidv4_def)

lemma addMessage_frame:
  "history (addMessage msg w) = history w @ [msg]"
  "trace (addMessage msg w) = trace w @ [AddMessage msg]"
  "session_context (addMessage msg w) = session_context w"
  by (simp_all add: addMessage_def)

text \<open>
  What \<open>postChats\<close> does with a request that passes its validation (a non-empty
  message list whose last message has content). When some stored message has
  \<^verbatim>\<open>type\<close> \<^verbatim>\<open>'human'\<close> and the trimmed content of the question, the history stays as
  it is and no message is added; otherwise exactly one \<^verbatim>\<open>HumanMessage\<close> with the
  question and an identifier drawn from \<^verbatim>\<open>uuidv4\<close> is appended, as the first effect
  of the call, before the retriever and the model.
\<close>

lemma postChats_history_trace:
  assumes "post_messages request = Some messages" and "messages \<noteq> []"
    and "cm_content (last messages) \<noteq> []"
  shows
    "let q = cm_content (last messages);
         w' = snd (postChats m request w);
         fresh = uuid_source w
                   (if post_sessionId request = None \<or> post_sessionId request = Some []
                    then Suc (uuid_next w) else uuid_next w);
         userMessage = setMessageId (HumanMessage q) fresh;
         title_effects =
           (if truthy (get_prop (session_context w) ''title'') then []
            else [TitleModel q, SetContext [''title'' \<mapsto> JStr (titleChain m q)]])
     in if \<exists>msg\<in>set (history w). msg_type msg = Some ''human'' \<and> trim (content msg) = trim q
        then history w' = history w \<and>
             filter is_AddMessage (trace w') = filter is_AddMessage (trace w)
        else history w' = history w @ [userMessage] \<and>
             trace w' =
               trace w @ [AddMessage userMessage, Retrieve q, RagStream q (history w @ [userMessage])]
                 @ title_effects"
proof -
  let ?q = "cm_content (last messages)"
  let ?w1 = "snd (resolve_session request w)"
  let ?dup = "\<exists>msg\<in>set (history w). msg_type msg = Some ''human'' \<and> trim (content msg) = trim ?q"
  note P = postChats_valid [OF assms, of m w, unfolded Let_def resolve_session_frame]
  show ?thesis
  proof (cases ?dup)
    case True
    show ?thesis
    proof (cases "pop (filter (\<lambda>msg. msg_type msg = Some ''human'' \<and> content msg = ?q) (history w))")
      case None
      with True P have "postChats m request w = (PostServiceUnavailable, ?w1)" by simp
      with True show ?thesis by (simp add: Let_def resolve_session_frame)
    next
      case (Some existingUserMsg)
      with True P have "postChats m request w =
          answer m (fst (resolve_session request w)) ?q
            (if truthy (getMessageId existingUserMsg) then ?w1 else snd (uuidv4 ?w1))"
        by simp
      with True show ?thesis
        by (simp add: Let_def answer_history answer_trace resolve_session_frame uuidv4_frame)
    qed
  next
    case False
    with P have "postChats m request w =
        answer m (fst (resolve_session request w)) ?q
          (addMessage (setMessageId (HumanMessage ?q) (fst (uuidv4 ?w1))) (snd (uuidv4 ?w1)))"
      by simp
    with False show ?thesis
      by (simp add: Let_def answer_history answer_trace resolve_session_frame uuidv4_frame
          addMessage_frame)
  qed
qed

text \<open>
  The messages that the store returns have no property \<^verbatim>\<open>type\<close>, so the first case
  does not arise on them: every valid request appends its question.
\<close>

lemma postChats_untyped:
  assumes "post_messages request = Some messages" and "messages \<noteq> []"
    and "cm_content (last messages) \<noteq> []"
    and "\<forall>msg\<in>set (history w). msg_type msg = None"
  shows "history (snd (postChats m request w)) =
         history w @
           [setMessageId (HumanMessage (cm_content (last messages)))
              (uuid_source w
                 (if post_sessionId request = None \<or> post_sessionId request = Some []
                  then Suc (uuid_next w) else uuid_next w))]"
proof -
  from assms(4) have "\<not> (\<exists>msg\<in>set (history w).
      msg_type msg = Some ''human'' \<and> trim (content msg) = trim (cm_content (last messages)))"
    by auto
  with postChats_history_trace [OF assms(1-3), of m w] show ?thesis
    by (simp add: Let_def)
qed

text \<open>
  C2. A question whose trimmed content equals that of a stored human message is
  meant to add no new user message. The check asks for \<^verbatim>\<open>msg.type === 'human'\<close>,
  which no stored message satisfies: posting the question \<^verbatim>\<open>hello\<close> twice to an
  empty session (a retried request) stores two \<^verbatim>\<open>HumanMessage\<close>s of that content,
  each with an identifier of its own.
\<close>

theorem postChats_repost_duplicates:
  "map (\<lambda>m. (msg_class m, content m, getMessageId m))
     (history (snd (postChats example_models (example_post ''hello'')
        (snd (postChats example_models (example_post ''hello'') example_empty_world))))) =
   [(''HumanMessage'', ''hello'', JStr ''uuid-''), (''HumanMessage'', ''hello'', JStr ''uuid-xx'')]"
  by (simp add: postChats_def answer_def example_post_def example_models_def
      example_empty_world_def getMessages_def getContext_def setContext_def uuidv4_def
      addMessage_def Let_def trim_def isWhiteSpace_def get_prop_def
      setMessageId_def HumanMessage_def new_message_def getMessageId_def js_or_def
      opt_prop_def or_empty_def)

text \<open>
  C10. When the session context has a truthy (present, non-empty) title,
  \<open>postChats\<close> leaves the session context as it is, whatever the request, and neither
  calls the title chain nor \<^verbatim>\<open>setContext\<close>.
\<close>

theorem postChats_keeps_title:
  assumes "truthy (get_prop (session_context w) ''title'')"
  shows "session_context (snd (postChats m request w)) = session_context w \<and>
         filter is_title_effect (trace (snd (postChats m request w))) =
           filter is_title_effect (trace w)"
proof (cases "\<exists>messages. post_messages request = Some messages \<and> messages \<noteq> [] \<and>
    cm_content (last messages) \<noteq> []")
  case False
  then have "postChats m request w = (PostBadRequest, w)"
    by (auto simp add: postChats_def split: option.splits)
  then show ?thesis by simp
next
  case True
  then obtain messages where v: "post_messages request = Some messages" "messages \<noteq> []"
    "cm_content (last messages) \<noteq> []" by blast
  let ?q = "cm_content (last messages)"
  let ?w1 = "snd (resolve_session request w)"
  note P = postChats_valid [OF v, of m w, unfolded Let_def resolve_session_frame]
  show ?thesis
  proof (cases "\<exists>msg\<in>set (history w). msg_type msg = Some ''human'' \<and> trim (content msg) = trim ?q")
    case dup: True
    show ?thesis
    proof (cases "pop (filter (\<lambda>msg. msg_type msg = Some ''human'' \<and> content msg = ?q) (history w))")
      case None
      with dup P have "postChats m request w = (PostServiceUnavailable, ?w1)" by simp
      then show ?thesis by (simp add: resolve_session_frame)
    next
      case (Some existingUserMsg)
      with dup P have "postChats m request w =
          answer m (fst (resolve_session request w)) ?q
            (if truthy (getMessageId existingUserMsg) then ?w1 else snd (uuidv4 ?w1))"
        by simp
      then show ?thesis
        using assms
        by (simp add: answer_context answer_trace resolve_session_frame uuidv4_frame)
    qed
  next
    case False
    with P have "postChats m request w =
        answer m (fst (resolve_session request w)) ?q
          (addMessage (setMessageId (HumanMessage ?q) (fst (uuidv4 ?w1))) (snd (uuidv4 ?w1)))"
      by simp
    then show ?thesis
      using assms
      by (simp add: answer_context answer_trace resolve_session_frame uuidv4_frame addMessage_frame)
  qed
qed


theorem postChats_keeps_title_witness:
  "truthy (get_prop (session_context example_world) ''title'') \<and>
   get_prop (session_context (snd (postChats example_models (example_post ''What is RAG?'')
       example_world))) ''title'' = JStr ''Greeting'' \<and>
   filter is_title_effect
     (trace (snd (postChats example_models (example_post ''What is RAG?'') example_world))) = []"
proof -
  have c: "truthy (get_prop (session_context example_world) ''title'')"
    by (simp add: example_defs get_prop_def)
  have d: "get_prop (session_context example_world) ''title'' = JStr ''Greeting''"
    "trace example_world = []"
    by (simp_all add: example_defs get_prop_def)
  from postChats_keeps_title [OF c, of example_models "example_post ''What is RAG?''"] c d
  show ?thesis by simp
qed

end
